theory Spec2Isabelle
  imports Complex_Main "HOL-Library.Word"
begin

section \<open>Python numbers\<close>

text \<open>
  The channel values handled by the scripts are Python numbers: unbounded integers, and
  floats where a pattern generator computes with \<open>math.cos\<close> and \<open>math.sin\<close>.
  A finite float is modelled by the real number it denotes (every double is a real, so a
  statement about all reals covers all doubles); the three special doubles are constructors
  of their own. Comparison between an integer and a float is exact in Python, and so is
  \<open>int()\<close> on a finite float (truncation towards zero).
\<close>

datatype pynum = PyInt int | PyFloat real | PyInf | PyNegInf | PyNaN

datatype error = StructError | OverflowError | ValueError | OSError

text \<open>\<open>a < b\<close> on Python numbers: every comparison with NaN is false.\<close>

fun py_lt :: "pynum \<Rightarrow> pynum \<Rightarrow> bool" where
  "py_lt (PyInt a) (PyInt b) = (a < b)"
| "py_lt (PyInt a) (PyFloat b) = (of_int a < b)"
| "py_lt (PyFloat a) (PyInt b) = (a < of_int b)"
| "py_lt (PyFloat a) (PyFloat b) = (a < b)"
| "py_lt PyNaN _ = False"
| "py_lt _ PyNaN = False"
| "py_lt PyInf _ = False"
| "py_lt _ PyInf = True"
| "py_lt PyNegInf PyNegInf = False"
| "py_lt PyNegInf _ = True"
| "py_lt _ PyNegInf = False"

text \<open>\<open>a <= b\<close> on Python numbers.\<close>

fun py_le :: "pynum \<Rightarrow> pynum \<Rightarrow> bool" where
  "py_le (PyInt a) (PyInt b) = (a \<le> b)"
| "py_le (PyInt a) (PyFloat b) = (of_int a \<le> b)"
| "py_le (PyFloat a) (PyInt b) = (a \<le> of_int b)"
| "py_le (PyFloat a) (PyFloat b) = (a \<le> b)"
| "py_le PyNaN _ = False"
| "py_le _ PyNaN = False"
| "py_le PyNegInf _ = True"
| "py_le _ PyInf = True"
| "py_le PyInf _ = False"
| "py_le _ PyNegInf = False"

text \<open>
  The builtins \<open>min(a, b)\<close> and \<open>max(a, b)\<close> keep the first argument unless the
  second is strictly smaller (respectively strictly larger).
\<close>

definition py_min :: "pynum \<Rightarrow> pynum \<Rightarrow> pynum" where
  "py_min a b = (if py_lt b a then b else a)"

definition py_max :: "pynum \<Rightarrow> pynum \<Rightarrow> pynum" where
  "py_max a b = (if py_lt a b then b else a)"

text \<open>\<open>int(x)\<close>: truncation towards zero; infinities and NaN raise.\<close>

definition trunc :: "real \<Rightarrow> int" where
  "trunc r = (if 0 \<le> r then \<lfloor>r\<rfloor> else \<lceil>r\<rceil>)"

fun py_int :: "pynum \<Rightarrow> error + int" where
  "py_int (PyInt i) = Inr i"
| "py_int (PyFloat r) = Inr (trunc r)"
| "py_int PyInf = Inl OverflowError"
| "py_int PyNegInf = Inl OverflowError"
| "py_int PyNaN = Inl ValueError"

section \<open>Constants\<close>

definition MIN_VAL :: int where "MIN_VAL = 1"
definition MAX_VAL :: int where "MAX_VAL = 32768"
definition MID_VAL :: int where "MID_VAL = 16384"
definition RADIUS :: int where "RADIUS = 16000"

section \<open>The output device\<close>

text \<open>
  The vJoy device is external. It is modelled by the sequence of calls
  \<open>joystick.set_axis(axis_id, value)\<close> made on it, oldest first.
\<close>

datatype hid_usage = HID_USAGE_X | HID_USAGE_Y | HID_USAGE_Z | HID_USAGE_RX

type_synonym vjoy = "(hid_usage \<times> int) list"

definition joystick_set_axis :: "hid_usage \<Rightarrow> int \<Rightarrow> vjoy \<Rightarrow> vjoy" where
  "joystick_set_axis axis_id val dev = dev @ [(axis_id, val)]"

definition AXIS_THROTTLE :: hid_usage where "AXIS_THROTTLE = HID_USAGE_Z"

section \<open>Clamping helpers of the calibration tools\<close>

text \<open>\<open>clamp(v, lo, hi)\<close> of \<open>calibration_with_display.py\<close>.\<close>

definition clamp :: "pynum \<Rightarrow> pynum \<Rightarrow> pynum \<Rightarrow> pynum" where
  "clamp v lo hi = py_max lo (py_min hi v)"

text \<open>
  \<open>set_axis\<close> of \<open>calibration.py\<close>:
  \<open>val = int(max(MIN_VAL, min(MAX_VAL, value)))\<close>, then the device write.
  An exception of \<open>int()\<close> would leave the function before the write.
\<close>

definition set_axis :: "hid_usage \<Rightarrow> pynum \<Rightarrow> vjoy \<Rightarrow> error + vjoy" where
  "set_axis axis_id v dev =
     (case py_int (py_max (PyInt MIN_VAL) (py_min (PyInt MAX_VAL) v)) of
        Inl e \<Rightarrow> Inl e
      | Inr val \<Rightarrow> Inr (joystick_set_axis axis_id val dev))"

text \<open>
  \<open>set_axis\<close> of \<open>calibration_with_display.py\<close>: the same through \<open>clamp\<close>; it also
  stores the value written in \<open>axis_state\<close>, the dictionary the dashboard reads.
\<close>

record display =
  joystick :: vjoy
  axis_state :: "hid_usage \<Rightarrow> int"

definition set_axis_display :: "hid_usage \<Rightarrow> pynum \<Rightarrow> display \<Rightarrow> error + display" where
  "set_axis_display axis_id v st =
     (case py_int (clamp v (PyInt MIN_VAL) (PyInt MAX_VAL)) of
        Inl e \<Rightarrow> Inl e
      | Inr val \<Rightarrow>
          Inr (st\<lparr>joystick := joystick_set_axis axis_id val (joystick st),
                  axis_state := (axis_state st)(axis_id := val)\<rparr>))"

text \<open>\<open>set_throttle\<close> of \<open>movements.py\<close>.\<close>

definition set_throttle :: "pynum \<Rightarrow> vjoy \<Rightarrow> error + vjoy" where
  "set_throttle v dev =
     (case py_int (py_max (PyInt MIN_VAL) (py_min (PyInt MAX_VAL) v)) of
        Inl e \<Rightarrow> Inl e
      | Inr val \<Rightarrow> Inr (joystick_set_axis AXIS_THROTTLE val dev))"

section \<open>The control packet\<close>

text \<open>
  \<open>struct.pack('iiii', ...)\<close> and \<open>struct.unpack('iiii', ...)\<close>: four C ints of four
  bytes each, two's complement, in the byte order of the machine. The scripts drive vJoy
  and dxcam, which exist on little-endian machines only, so the least significant byte
  comes first. Packing an integer outside the range of a C int raises \<open>struct.error\<close>,
  and so does unpacking a buffer that is not 16 bytes long.
\<close>

type_synonym byte = "8 word"

definition bind_err :: "error + 'a \<Rightarrow> ('a \<Rightarrow> error + 'b) \<Rightarrow> error + 'b" where
  "bind_err m f = (case m of Inl e \<Rightarrow> Inl e | Inr x \<Rightarrow> f x)"

definition pack_i :: "int \<Rightarrow> error + byte list" where
  "pack_i v =
     (if - 2147483648 \<le> v \<and> v \<le> 2147483647
      then Inr [word_of_int v, word_of_int (v div 256),
                word_of_int (v div 65536), word_of_int (v div 16777216)]
      else Inl StructError)"

fun unpack_i :: "byte list \<Rightarrow> error + int" where
  "unpack_i [b0, b1, b2, b3] =
     (let u = uint b0 + 256 * uint b1 + 65536 * uint b2 + 16777216 * uint b3
      in Inr (if u < 2147483648 then u else u - 4294967296))"
| "unpack_i _ = Inl StructError"

definition struct_pack_iiii :: "int \<times> int \<times> int \<times> int \<Rightarrow> error + byte list" where
  "struct_pack_iiii args =
     (case args of (a, b, c, d) \<Rightarrow>
        bind_err (pack_i a) (\<lambda>pa.
        bind_err (pack_i b) (\<lambda>pb.
        bind_err (pack_i c) (\<lambda>pc.
        bind_err (pack_i d) (\<lambda>pd. Inr (pa @ pb @ pc @ pd))))))"

definition struct_unpack_iiii :: "byte list \<Rightarrow> error + int \<times> int \<times> int \<times> int" where
  "struct_unpack_iiii data =
     (if length data \<noteq> 16 then Inl StructError
      else
        bind_err (unpack_i (take 4 data)) (\<lambda>a.
        bind_err (unpack_i (take 4 (drop 4 data))) (\<lambda>b.
        bind_err (unpack_i (take 4 (drop 8 data))) (\<lambda>c.
        bind_err (unpack_i (take 4 (drop 12 data))) (\<lambda>d. Inr (a, b, c, d))))))"

section \<open>The client: \<open>test_client.py\<close>\<close>

text \<open>
  \<open>stick_state\<close> is a dictionary with the four keys \<open>roll\<close>, \<open>pitch\<close>, \<open>yaw\<close> and
  \<open>throttle\<close>; no key is ever added or removed, so it is a record of four numbers.
  \<open>sock_out\<close> is modelled by the packets handed to \<open>sock_out.sendto\<close>, oldest first.
\<close>

datatype axis_name = Roll | Pitch | Yaw | Throttle

record stick_state =
  roll :: pynum
  pitch :: pynum
  yaw :: pynum
  throttle :: pynum

record client =
  stick :: stick_state
  sock_out :: "byte list list"

definition stick_state_init :: stick_state where
  "stick_state_init =
     \<lparr>roll = PyInt MID_VAL, pitch = PyInt MID_VAL, yaw = PyInt MID_VAL, throttle = PyInt 0\<rparr>"

definition client_init :: client where
  "client_init = \<lparr>stick = stick_state_init, sock_out = []\<rparr>"

fun store :: "axis_name \<Rightarrow> pynum \<Rightarrow> stick_state \<Rightarrow> stick_state" where
  "store Roll v s = s\<lparr>roll := v\<rparr>"
| "store Pitch v s = s\<lparr>pitch := v\<rparr>"
| "store Yaw v s = s\<lparr>yaw := v\<rparr>"
| "store Throttle v s = s\<lparr>throttle := v\<rparr>"

text \<open>
  The four arguments \<open>send_packet\<close> hands to \<open>struct.pack\<close>:
  \<open>int(stick_state['roll'])\<close>, ..., evaluated left to right. There is no clamp here.
\<close>

definition packed_values :: "stick_state \<Rightarrow> error + int \<times> int \<times> int \<times> int" where
  "packed_values s =
     bind_err (py_int (roll s)) (\<lambda>r.
     bind_err (py_int (pitch s)) (\<lambda>p.
     bind_err (py_int (yaw s)) (\<lambda>y.
     bind_err (py_int (throttle s)) (\<lambda>t. Inr (r, p, y, t)))))"

text \<open>
  \<open>send_packet\<close>: any exception inside the \<open>try\<close> is printed and nothing is sent.
\<close>

definition send_packet :: "client \<Rightarrow> client" where
  "send_packet c =
     (case bind_err (packed_values (stick c)) struct_pack_iiii of
        Inl e \<Rightarrow> c
      | Inr packet \<Rightarrow> c\<lparr>sock_out := sock_out c @ [packet]\<rparr>)"

definition update_axis :: "axis_name \<Rightarrow> pynum \<Rightarrow> client \<Rightarrow> error + client" where
  "update_axis name v c =
     (case py_int (py_max (PyInt MIN_VAL) (py_min (PyInt MAX_VAL) v)) of
        Inl e \<Rightarrow> Inl e
      | Inr val \<Rightarrow> Inr (send_packet (c\<lparr>stick := store name (PyInt val) (stick c)\<rparr>)))"

definition center_sticks :: "client \<Rightarrow> client" where
  "center_sticks c =
     send_packet (c\<lparr>stick :=
       store Throttle (PyInt MID_VAL) (store Yaw (PyInt MID_VAL)
         (store Pitch (PyInt MID_VAL) (store Roll (PyInt MID_VAL) (stick c))))\<rparr>)"

text \<open>
  Float arithmetic of \<open>circles_worker\<close>. The product and the sum of two doubles are the
  exact results rounded to a double; \<open>rnd\<close> is that rounding, \<open>fcos\<close> and \<open>fsin\<close> are
  \<open>math.cos\<close> and \<open>math.sin\<close>. They are parameters: what is known of them is
  \<open>float_env\<close> (rounding is monotone and leaves the integers below \<open>2^53\<close> alone, which
  are doubles; cosine and sine stay in \<open>[-1, 1]\<close>).
\<close>

record fenv =
  rnd :: "real \<Rightarrow> real"
  fcos :: "real \<Rightarrow> real"
  fsin :: "real \<Rightarrow> real"

definition float_env :: "fenv \<Rightarrow> bool" where
  "float_env E \<longleftrightarrow>
     (\<forall>x y. x \<le> y \<longrightarrow> rnd E x \<le> rnd E y) \<and>
     (\<forall>i::int. \<bar>i\<bar> \<le> 9007199254740992 \<longrightarrow> rnd E (of_int i) = of_int i) \<and>
     (\<forall>a. - 1 \<le> fcos E a \<and> fcos E a \<le> 1) \<and>
     (\<forall>a. - 1 \<le> fsin E a \<and> fsin E a \<le> 1)"

text \<open>Exact arithmetic: no rounding, the real cosine and sine.\<close>

definition ideal_env :: fenv where
  "ideal_env = \<lparr>rnd = (\<lambda>x. x), fcos = cos, fsin = sin\<rparr>"

text \<open>\<open>MID_VAL + (x * RADIUS)\<close> for a float \<open>x\<close>.\<close>

definition mid_plus :: "fenv \<Rightarrow> real \<Rightarrow> pynum" where
  "mid_plus E x = PyFloat (rnd E (of_int MID_VAL + rnd E (x * of_int RADIUS)))"

text \<open>One iteration of the loop of \<open>circles_worker\<close>, up to \<open>send_packet()\<close>.\<close>

definition circles_body :: "fenv \<Rightarrow> real \<Rightarrow> client \<Rightarrow> client" where
  "circles_body E angle c =
     send_packet (c\<lparr>stick :=
       store Pitch (mid_plus E (- fsin E angle))
         (store Roll (mid_plus E (fcos E angle))
           (store Throttle (mid_plus E (fsin E angle))
             (store Yaw (mid_plus E (fcos E angle)) (stick c))))\<rparr>)"

text \<open>
  \<open>circles_worker\<close>: the list holds the values of \<open>keep_running\<close> read by the successive
  evaluations of the loop condition (another thread writes the flag).
\<close>

fun circles_loop :: "fenv \<Rightarrow> bool list \<Rightarrow> real \<Rightarrow> client \<Rightarrow> client" where
  "circles_loop E [] angle c = c"
| "circles_loop E (keep_running # ks) angle c =
     (if keep_running
      then circles_loop E ks (rnd E (angle + rnd E (1 / 10))) (circles_body E angle c)
      else c)"

definition circles_worker :: "fenv \<Rightarrow> bool list \<Rightarrow> client \<Rightarrow> client" where
  "circles_worker E ks c = circles_loop E ks 0 c"






text \<open>
  The states \<open>stick_state\<close> has when \<open>send_packet\<close> runs: every call of \<open>send_packet\<close>
  is the last statement of \<open>center_sticks\<close>, of \<open>update_axis\<close> or of the body of
  \<open>circles_worker\<close>, and the main program calls \<open>center_sticks\<close> before anything else.
\<close>

inductive sends_from :: "fenv \<Rightarrow> stick_state \<Rightarrow> bool" for E :: fenv where
  centered: "sends_from E (stick (center_sticks c))"
| updated: "sends_from E (stick c) \<Longrightarrow> update_axis name v c = Inr c' \<Longrightarrow> sends_from E (stick c')"
| circled: "sends_from E (stick (circles_body E angle c))"

definition in_range :: "int \<Rightarrow> bool" where
  "in_range v \<longleftrightarrow> MIN_VAL \<le> v \<and> v \<le> MAX_VAL"

definition sample_in_range :: "int \<times> int \<times> int \<times> int \<Rightarrow> bool" where
  "sample_in_range s =
     (case s of (r, p, y, t) \<Rightarrow> in_range r \<and> in_range p \<and> in_range y \<and> in_range t)"

section \<open>The server: \<open>test_server.py\<close>\<close>

text \<open>
  What one call of \<open>drone_inputs_socket.recvfrom(1024)\<close> gives: a datagram, or one of
  the exceptions the loop tells apart.
\<close>

datatype recv = Datagram "byte list" | BlockingIOError | ConnectionResetError | OtherException

text \<open>
  The statements of the \<open>try\<close> block of \<open>receive_controls\<close>; \<open>Inl\<close> is an exception
  that reaches the handler \<open>except Exception\<close>. The values unpacked go to the device as
  they are.
\<close>

definition control_body :: "recv \<Rightarrow> vjoy \<Rightarrow> error + vjoy" where
  "control_body r dev =
     (case r of
        BlockingIOError \<Rightarrow> Inr dev
      | ConnectionResetError \<Rightarrow> Inr dev
      | OtherException \<Rightarrow> Inl OSError
      | Datagram data \<Rightarrow>
          if length data = 16
          then bind_err (struct_unpack_iiii data) (\<lambda>(roll, pitch, yaw, throttle).
                 Inr (joystick_set_axis HID_USAGE_Z throttle
                       (joystick_set_axis HID_USAGE_RX yaw
                         (joystick_set_axis HID_USAGE_Y pitch
                           (joystick_set_axis HID_USAGE_X roll dev)))))
          else Inr dev)"

text \<open>One iteration: the handler prints the exception and the loop goes on.\<close>

definition control_step :: "recv \<Rightarrow> vjoy \<Rightarrow> vjoy" where
  "control_step r dev = (case control_body r dev of Inl e \<Rightarrow> dev | Inr dev' \<Rightarrow> dev')"

text \<open>
  \<open>receive_controls\<close>: each element of the list is one evaluation of the condition
  \<open>while running\<close> (the value read) with what \<open>recvfrom\<close> gives in that iteration.
\<close>

fun receive_controls :: "(bool \<times> recv) list \<Rightarrow> vjoy \<Rightarrow> vjoy" where
  "receive_controls [] dev = dev"
| "receive_controls ((running, r) # rest) dev =
     (if running then receive_controls rest (control_step r dev) else dev)"

definition writes_in_range :: "vjoy \<Rightarrow> bool" where
  "writes_in_range dev = list_all (\<lambda>(axis_id, val). in_range val) dev"

text \<open>
  The video loop. \<open>camera.get_latest_frame()\<close> gives a frame or \<open>None\<close>; \<open>cv2.resize\<close>
  followed by \<open>cv2.imencode\<close> is the parameter \<open>compress\<close>; \<open>video_socket\<close> is modelled
  by the buffers handed to \<open>video_socket.sendto\<close>, oldest first (an exception of
  \<open>sendto\<close> is swallowed by \<open>except Exception: pass\<close>).
\<close>

definition video_step :: "('f \<Rightarrow> byte list) \<Rightarrow> 'f option \<Rightarrow> byte list list \<Rightarrow> byte list list" where
  "video_step compress frame video_socket =
     (case frame of
        None \<Rightarrow> video_socket
      | Some f \<Rightarrow>
          (let buffer = compress f
           in if length buffer < 65000 then video_socket @ [buffer] else video_socket))"

text \<open>The loop \<open>while True\<close>, over the frames the camera gives until the interrupt.\<close>

fun video_loop :: "('f \<Rightarrow> byte list) \<Rightarrow> 'f option list \<Rightarrow> byte list list \<Rightarrow> byte list list" where
  "video_loop compress [] video_socket = video_socket"
| "video_loop compress (frame # frames) video_socket =
     video_loop compress frames (video_step compress frame video_socket)"



section \<open>Start of the processes\<close>

text \<open>
  \<open>exit()\<close> and \<open>sys.exit(code)\<close> raise \<open>SystemExit(code)\<close>; the exit status of the
  process is 0 when the code is \<open>None\<close> and the code itself when it is an integer.
\<close>

datatype startup = Exited int | Started

definition exit_status :: "int option \<Rightarrow> int" where
  "exit_status code = (case code of None \<Rightarrow> 0 | Some n \<Rightarrow> n)"

text \<open>
  The vJoy setup of \<open>test_server.py\<close>; the argument tells whether
  \<open>pyvjoy.VJoyDevice(VJOY_DEVICE_ID)\<close> raised. The handler calls \<open>exit()\<close>.
\<close>

definition server_vjoy_setup :: "error + unit \<Rightarrow> startup" where
  "server_vjoy_setup r = (case r of Inl e \<Rightarrow> Exited (exit_status None) | Inr u \<Rightarrow> Started)"

text \<open>
  The vJoy setup of \<open>calibration.py\<close> and of \<open>calibration_with_display.py\<close>: the handler
  calls \<open>sys.exit(1)\<close>.
\<close>

definition calibration_vjoy_setup :: "error + unit \<Rightarrow> startup" where
  "calibration_vjoy_setup r =
     (case r of Inl e \<Rightarrow> Exited (exit_status (Some 1)) | Inr u \<Rightarrow> Started)"

section \<open>Clamping: range and idempotence\<close>

lemma trunc_bounds:
  assumes "1 \<le> r" and "r \<le> 32768"
  shows "1 \<le> trunc r" and "trunc r \<le> 32768"
proof -
  from assms have nonneg: "0 \<le> r" by simp
  from assms(1) have "(1::int) \<le> \<lfloor>r\<rfloor>" by (simp add: le_floor_iff)
  with nonneg show "1 \<le> trunc r" by (simp add: trunc_def)
  from assms(2) have "\<lfloor>r\<rfloor> \<le> (32768::int)" by (simp add: floor_le_iff)
  with nonneg show "trunc r \<le> 32768" by (simp add: trunc_def)
qed

text \<open>The clamped value is an integer in range or a finite float in range.\<close>

lemma clamp_shape:
  "(\<exists>i. clamp v (PyInt MIN_VAL) (PyInt MAX_VAL) = PyInt i \<and> 1 \<le> i \<and> i \<le> 32768) \<or>
   (\<exists>r. clamp v (PyInt MIN_VAL) (PyInt MAX_VAL) = PyFloat r \<and> 1 < r \<and> r < 32768)"
  by (cases v) (auto simp: clamp_def py_min_def py_max_def MIN_VAL_def MAX_VAL_def)

lemma int_clamp_in_range:
  "\<exists>n. py_int (clamp v (PyInt MIN_VAL) (PyInt MAX_VAL)) = Inr n \<and> 1 \<le> n \<and> n \<le> 32768"
  using clamp_shape [of v] trunc_bounds by fastforce

lemma clamp_inline: "py_max lo (py_min hi v) = clamp v lo hi"
  by (simp add: clamp_def)

text \<open>
  Claim C4. For every value \<open>v\<close> (an integer, a float, an infinity or NaN),
  \<open>clamp(v) = max(MIN_VAL, min(MAX_VAL, v))\<close> satisfies
  \<open>MIN_VAL <= clamp(v) <= MAX_VAL\<close>, and clamping a second time changes nothing.
\<close>

theorem clamp_range_idempotent:
  "py_le (PyInt MIN_VAL) (clamp v (PyInt MIN_VAL) (PyInt MAX_VAL)) \<and>
   py_le (clamp v (PyInt MIN_VAL) (PyInt MAX_VAL)) (PyInt MAX_VAL) \<and>
   clamp (clamp v (PyInt MIN_VAL) (PyInt MAX_VAL)) (PyInt MIN_VAL) (PyInt MAX_VAL)
     = clamp v (PyInt MIN_VAL) (PyInt MAX_VAL)"
  by (cases v) (auto simp: clamp_def py_min_def py_max_def MIN_VAL_def MAX_VAL_def)

section \<open>Device writes of the calibration tools\<close>

text \<open>
  Claim C10. Whatever number is passed (an integer or a float, in range or not, an
  infinity or NaN), \<open>set_axis\<close> of \<open>calibration.py\<close>, \<open>set_axis\<close> of
  \<open>calibration_with_display.py\<close> and \<open>set_throttle\<close> of \<open>movements.py\<close> raise nothing
  and make exactly one device write, of an integer \<open>n\<close> with
  \<open>MIN_VAL \<le> n \<le> MAX_VAL\<close>. These helpers hold the only calls of
  \<open>joystick.set_axis\<close> in the three files.
\<close>

theorem calibration_writes_in_range:
  "(\<exists>n. set_axis a v dev = Inr (dev @ [(a, n)]) \<and> in_range n) \<and>
   (\<exists>n. set_axis_display a v st =
          Inr (st\<lparr>joystick := joystick st @ [(a, n)], axis_state := (axis_state st)(a := n)\<rparr>)
        \<and> in_range n) \<and>
   (\<exists>n. set_throttle v dev = Inr (dev @ [(HID_USAGE_Z, n)]) \<and> in_range n)"
proof -
  obtain n where n: "py_int (clamp v (PyInt MIN_VAL) (PyInt MAX_VAL)) = Inr n"
    and "1 \<le> n" "n \<le> 32768"
    using int_clamp_in_range by blast
  then have r: "in_range n" by (simp add: in_range_def MIN_VAL_def MAX_VAL_def)
  have "set_axis a v dev = Inr (dev @ [(a, n)])"
    using n by (simp add: set_axis_def clamp_inline joystick_set_axis_def)
  moreover have "set_axis_display a v st =
      Inr (st\<lparr>joystick := joystick st @ [(a, n)], axis_state := (axis_state st)(a := n)\<rparr>)"
    using n by (simp add: set_axis_display_def joystick_set_axis_def)
  moreover have "set_throttle v dev = Inr (dev @ [(HID_USAGE_Z, n)])"
    using n by (simp add: set_throttle_def clamp_inline joystick_set_axis_def AXIS_THROTTLE_def)
  ultimately show ?thesis using r by blast
qed

section \<open>The control packet: round trip\<close>

lemma uint_byte: "uint (word_of_int k :: byte) = k mod 256"
  by (simp add: uint_word_of_int_eq take_bit_eq_mod)

lemma bytes_sum:
  "(v::int) mod 256 + 256 * (v div 256 mod 256) + 65536 * (v div 65536 mod 256)
     + 16777216 * (v div 16777216 mod 256) = v mod 4294967296"
proof -
  have a: "v mod 65536 = 256 * (v div 256 mod 256) + v mod 256"
    using zmod_zmult2_eq [of 256 v 256] by simp
  have b: "v mod 16777216 = 65536 * (v div 65536 mod 256) + v mod 65536"
    using zmod_zmult2_eq [of 256 v 65536] by simp
  have c: "v mod 4294967296 = 16777216 * (v div 16777216 mod 256) + v mod 16777216"
    using zmod_zmult2_eq [of 256 v 16777216] by simp
  show ?thesis unfolding c b a by simp
qed

lemma unpack_pack_i:
  assumes "- 2147483648 \<le> v" and "v \<le> 2147483647"
  shows "\<exists>bs. pack_i v = Inr bs \<and> length bs = 4 \<and> unpack_i bs = Inr v"
proof -
  have "(v + 4294967296) mod 4294967296 = v + 4294967296" if "v < 0"
    using assms that by (intro mod_pos_pos_trivial) simp_all
  then have m: "v mod 4294967296 = (if 0 \<le> v then v else v + 4294967296)"
    using assms by (simp add: mod_pos_pos_trivial)
  have "unpack_i [word_of_int v, word_of_int (v div 256),
                word_of_int (v div 65536), word_of_int (v div 16777216)] = Inr v"
    using assms by (simp only: unpack_i.simps uint_byte bytes_sum Let_def m) simp
  then show ?thesis using assms
    by (simp add: pack_i_def)
qed


lemma bind_err_Inr [simp]: "bind_err (Inr x) f = f x"
  by (simp add: bind_err_def)

lemma bind_err_Inl [simp]: "bind_err (Inl e) f = Inl e"
  by (simp add: bind_err_def)

lemma struct_roundtrip:
  assumes a: "- 2147483648 \<le> a" "a \<le> 2147483647"
    and b: "- 2147483648 \<le> b" "b \<le> 2147483647"
    and c: "- 2147483648 \<le> c" "c \<le> 2147483647"
    and d: "- 2147483648 \<le> d" "d \<le> 2147483647"
  shows "\<exists>packet. struct_pack_iiii (a, b, c, d) = Inr packet \<and> length packet = 16 \<and>
           struct_unpack_iiii packet = Inr (a, b, c, d)"
proof -
  obtain pa where pa: "pack_i a = Inr pa" "length pa = 4" "unpack_i pa = Inr a"
    using unpack_pack_i [OF a] by blast
  obtain pb where pb: "pack_i b = Inr pb" "length pb = 4" "unpack_i pb = Inr b"
    using unpack_pack_i [OF b] by blast
  obtain pc where pc: "pack_i c = Inr pc" "length pc = 4" "unpack_i pc = Inr c"
    using unpack_pack_i [OF c] by blast
  obtain pd where pd: "pack_i d = Inr pd" "length pd = 4" "unpack_i pd = Inr d"
    using unpack_pack_i [OF d] by blast
  have "struct_pack_iiii (a, b, c, d) = Inr (pa @ pb @ pc @ pd)"
    by (simp add: struct_pack_iiii_def pa pb pc pd)
  moreover have "length (pa @ pb @ pc @ pd) = 16"
    by (simp add: pa pb pc pd)
  moreover have "struct_unpack_iiii (pa @ pb @ pc @ pd) = Inr (a, b, c, d)"
    by (simp add: struct_unpack_iiii_def pa pb pc pd)
  ultimately show ?thesis by blast
qed

lemma in_range_int32: "in_range v \<Longrightarrow> - 2147483648 \<le> v \<and> v \<le> 2147483647"
  by (simp add: in_range_def MIN_VAL_def MAX_VAL_def)

lemma send_packet_ints:
  "struct_pack_iiii (r, p, y, t) = Inr packet \<Longrightarrow>
   send_packet \<lparr>stick = \<lparr>roll = PyInt r, pitch = PyInt p, yaw = PyInt y, throttle = PyInt t\<rparr>,
                sock_out = out\<rparr>
     = \<lparr>stick = \<lparr>roll = PyInt r, pitch = PyInt p, yaw = PyInt y, throttle = PyInt t\<rparr>,
        sock_out = out @ [packet]\<rparr>"
  by (simp add: send_packet_def packed_values_def)

text \<open>
  Claim C1. For a sample whose four values are integers in \<open>[MIN_VAL, MAX_VAL]\<close>,
  \<open>struct.pack('iiii', ...)\<close> succeeds, the packet is what \<open>send_packet\<close> hands to
  the socket for that \<open>stick_state\<close>, it is 16 bytes long (so the server's length test
  lets it through), and \<open>struct.unpack('iiii', ...)\<close> gives the four values back.
\<close>

theorem control_packet_roundtrip:
  assumes "sample_in_range (r, p, y, t)"
  shows "\<exists>packet.
           struct_pack_iiii (r, p, y, t) = Inr packet \<and>
           sock_out (send_packet
             \<lparr>stick = \<lparr>roll = PyInt r, pitch = PyInt p, yaw = PyInt y, throttle = PyInt t\<rparr>,
              sock_out = []\<rparr>) = [packet] \<and>
           length packet = 16 \<and>
           struct_unpack_iiii packet = Inr (r, p, y, t)"
proof -
  from assms have "in_range r" "in_range p" "in_range y" "in_range t"
    by (simp_all add: sample_in_range_def)
  then obtain packet where pk: "struct_pack_iiii (r, p, y, t) = Inr packet"
      "length packet = 16" "struct_unpack_iiii packet = Inr (r, p, y, t)"
    using struct_roundtrip [of r p y t] in_range_int32 by blast
  then show ?thesis by (simp add: send_packet_ints)
qed

theorem control_packet_roundtrip_witness:
  "sample_in_range (16384, 16384, 16384, 1) \<and>
   (\<exists>packet.
      struct_pack_iiii (16384, 16384, 16384, 1) = Inr packet \<and>
      sock_out (send_packet
        \<lparr>stick = \<lparr>roll = PyInt 16384, pitch = PyInt 16384, yaw = PyInt 16384,
                  throttle = PyInt 1\<rparr>,
         sock_out = []\<rparr>) = [packet] \<and>
      length packet = 16 \<and>
      struct_unpack_iiii packet = Inr (16384, 16384, 16384, 1))"
proof -
  have h: "sample_in_range (16384, 16384, 16384, 1)"
    by (simp add: sample_in_range_def in_range_def MIN_VAL_def MAX_VAL_def)
  show ?thesis using h control_packet_roundtrip [OF h] by simp
qed

section \<open>The control receiver\<close>

lemma length4: "length xs = 4 \<Longrightarrow> \<exists>b0 b1 b2 b3. xs = [b0, b1, b2, b3]"
  by (auto simp: numeral_eq_Suc length_Suc_conv)

lemma unpack_i_total: "length xs = 4 \<Longrightarrow> \<exists>v. unpack_i xs = Inr v"
  using length4 [of xs] by (auto simp: Let_def)

lemma struct_unpack_total:
  assumes "length data = 16"
  shows "\<exists>r p y t. struct_unpack_iiii data = Inr (r, p, y, t)"
proof -
  obtain a where a: "unpack_i (take 4 data) = Inr a"
    using unpack_i_total [of "take 4 data"] assms by auto
  obtain b where b: "unpack_i (take 4 (drop 4 data)) = Inr b"
    using unpack_i_total [of "take 4 (drop 4 data)"] assms by auto
  obtain c where c: "unpack_i (take 4 (drop 8 data)) = Inr c"
    using unpack_i_total [of "take 4 (drop 8 data)"] assms by auto
  obtain d where d: "unpack_i (take 4 (drop 12 data)) = Inr d"
    using unpack_i_total [of "take 4 (drop 12 data)"] assms by auto
  show ?thesis using assms a b c d by (simp add: struct_unpack_iiii_def)
qed

lemma control_step_decoded:
  assumes "length data = 16"
  shows "\<exists>r p y t.
           struct_unpack_iiii data = Inr (r, p, y, t) \<and>
           control_step (Datagram data) dev =
             dev @ [(HID_USAGE_X, r), (HID_USAGE_Y, p), (HID_USAGE_RX, y), (HID_USAGE_Z, t)]"
proof -
  obtain r p y t where u: "struct_unpack_iiii data = Inr (r, p, y, t)"
    using struct_unpack_total [OF assms] by blast
  have "control_step (Datagram data) dev =
      dev @ [(HID_USAGE_X, r), (HID_USAGE_Y, p), (HID_USAGE_RX, y), (HID_USAGE_Z, t)]"
    using assms u by (simp add: control_step_def control_body_def joystick_set_axis_def)
  then show ?thesis using u by blast
qed

text \<open>
  Claim C2 at the failing input. The claim says that every value the receiver writes to
  the device is clamped to \<open>[MIN_VAL, MAX_VAL]\<close>. The 16-byte datagram that encodes
  \<open>(0, 40000, -1, 16384)\<close> is decoded, and 0, 40000 and -1 reach \<open>joystick.set_axis\<close>
  as they are: \<open>receive_controls\<close> has no clamp, where every other device write of the
  repository is clamped first.
\<close>

theorem control_step_writes_unclamped:
  "control_step (Datagram [0, 0, 0, 0, 64, 156, 0, 0, 255, 255, 255, 255, 0, 64, 0, 0]) [] =
     [(HID_USAGE_X, 0), (HID_USAGE_Y, 40000), (HID_USAGE_RX, - 1), (HID_USAGE_Z, 16384)] \<and>
   \<not> writes_in_range
     (control_step (Datagram [0, 0, 0, 0, 64, 156, 0, 0, 255, 255, 255, 255, 0, 64, 0, 0]) [])"
  by (simp add: control_step_def control_body_def struct_unpack_iiii_def joystick_set_axis_def
      writes_in_range_def in_range_def MIN_VAL_def MAX_VAL_def)

text \<open>
  Claim C6. A datagram whose length is not 16 leaves the \<open>try\<close> block without an
  exception and without a device write (the branch that unpacks is not taken), and the
  loop goes on with the next iteration as if the datagram had not come.
\<close>

theorem malformed_datagram_discarded:
  assumes "length data \<noteq> 16"
  shows "control_body (Datagram data) dev = Inr dev \<and>
         control_step (Datagram data) dev = dev \<and>
         receive_controls ((True, Datagram data) # rest) dev = receive_controls rest dev"
  using assms by (simp add: control_body_def control_step_def)

theorem malformed_datagram_discarded_witness:
  "length [1, 2, 3 :: byte] \<noteq> 16 \<and>
   control_body (Datagram [1, 2, 3]) [] = Inr [] \<and>
   control_step (Datagram [1, 2, 3]) [] = [] \<and>
   receive_controls
     [(True, Datagram [1, 2, 3]),
      (True, Datagram [0, 64, 0, 0, 0, 64, 0, 0, 0, 64, 0, 0, 1, 0, 0, 0])] []
     = [(HID_USAGE_X, 16384), (HID_USAGE_Y, 16384), (HID_USAGE_RX, 16384), (HID_USAGE_Z, 1)]"
proof -
  have h: "length [1, 2, 3 :: byte] \<noteq> 16" by simp
  have "receive_controls [(True, Datagram [0, 64, 0, 0, 0, 64, 0, 0, 0, 64, 0, 0, 1, 0, 0, 0])] []
    = [(HID_USAGE_X, 16384), (HID_USAGE_Y, 16384), (HID_USAGE_RX, 16384), (HID_USAGE_Z, 1)]"
    by (simp add: control_step_def control_body_def struct_unpack_iiii_def joystick_set_axis_def)
  then show ?thesis
    using malformed_datagram_discarded [OF h,
        of "[]" "[(True, Datagram [0, 64, 0, 0, 0, 64, 0, 0, 0, 64, 0, 0, 1, 0, 0, 0])]"]
    by simp
qed

section \<open>The client: what is sent\<close>

lemma stick_send_packet: "stick (send_packet c) = stick c"
  by (simp add: send_packet_def split: sum.splits)

lemma packed_values_Inr:
  "packed_values s = Inr (r, p, y, t) \<longleftrightarrow>
     py_int (roll s) = Inr r \<and> py_int (pitch s) = Inr p \<and>
     py_int (yaw s) = Inr y \<and> py_int (throttle s) = Inr t"
  by (auto simp: packed_values_def bind_err_def split: sum.splits)

lemma mid_plus_bounds:
  assumes E: "float_env E" and x: "- 1 \<le> x" "x \<le> 1"
  shows "\<exists>r. mid_plus E x = PyFloat r \<and> 384 \<le> r \<and> r \<le> 32384"
proof -
  have mono: "\<And>a b. a \<le> b \<Longrightarrow> rnd E a \<le> rnd E b"
    using E by (simp add: float_env_def)
  have fixes_int: "\<And>i::int. \<bar>i\<bar> \<le> 9007199254740992 \<Longrightarrow> rnd E (of_int i) = of_int i"
    using E by (simp add: float_env_def)
  define m where "m = rnd E (x * of_int RADIUS)"
  have "- 16000 \<le> x * 16000" "x * 16000 \<le> 16000" using x by simp_all
  then have "rnd E (- 16000) \<le> m" "m \<le> rnd E 16000"
    unfolding m_def RADIUS_def by (simp_all add: mono)
  moreover have "rnd E (- 16000) = - 16000" using fixes_int [of "- 16000"] by simp
  moreover have "rnd E 16000 = 16000" using fixes_int [of 16000] by simp
  ultimately have m: "- 16000 \<le> m" "m \<le> 16000" by simp_all
  then have "384 \<le> 16384 + m" "16384 + m \<le> 32384" by simp_all
  then have "rnd E 384 \<le> rnd E (16384 + m)" "rnd E (16384 + m) \<le> rnd E 32384"
    by (simp_all add: mono)
  moreover have "rnd E 384 = 384" using fixes_int [of 384] by simp
  moreover have "rnd E 32384 = 32384" using fixes_int [of 32384] by simp
  ultimately have "384 \<le> rnd E (16384 + m)" "rnd E (16384 + m) \<le> 32384" by simp_all
  then show ?thesis by (simp add: mid_plus_def m_def MID_VAL_def)
qed

lemma trunc_mono_bounds:
  assumes "384 \<le> r" and "r \<le> 32384"
  shows "in_range (trunc r)"
proof -
  from assms have "1 \<le> r" "r \<le> 32768" by simp_all
  then show ?thesis using trunc_bounds [of r]
    by (simp add: in_range_def MIN_VAL_def MAX_VAL_def)
qed

lemma mid_plus_int:
  assumes "float_env E" and "- 1 \<le> x" and "x \<le> 1"
  shows "\<exists>n. py_int (mid_plus E x) = Inr n \<and> in_range n"
proof -
  obtain r where "mid_plus E x = PyFloat r" "384 \<le> r" "r \<le> 32384"
    using mid_plus_bounds [OF assms] by blast
  then show ?thesis using trunc_mono_bounds [of r] by simp
qed

lemma circles_body_in_range:
  assumes E: "float_env E"
  shows "\<exists>smp. packed_values (stick (circles_body E angle c)) = Inr smp \<and> sample_in_range smp"
proof -
  have c: "- 1 \<le> fcos E angle" "fcos E angle \<le> 1"
    and s: "- 1 \<le> fsin E angle" "fsin E angle \<le> 1"
    using E by (simp_all add: float_env_def)
  from s have s': "- 1 \<le> - fsin E angle" "- fsin E angle \<le> 1" by simp_all
  obtain nc where nc: "py_int (mid_plus E (fcos E angle)) = Inr nc" "in_range nc"
    using mid_plus_int [OF E c] by blast
  obtain ns where ns: "py_int (mid_plus E (fsin E angle)) = Inr ns" "in_range ns"
    using mid_plus_int [OF E s] by blast
  obtain nm where nm: "py_int (mid_plus E (- fsin E angle)) = Inr nm" "in_range nm"
    using mid_plus_int [OF E s'] by blast
  have "packed_values (stick (circles_body E angle c)) = Inr (nc, nm, nc, ns)"
    by (simp add: circles_body_def stick_send_packet packed_values_Inr nc ns nm)
  then show ?thesis using nc ns nm by (simp add: sample_in_range_def)
qed

lemma center_sticks_in_range:
  "packed_values (stick (center_sticks c)) = Inr (MID_VAL, MID_VAL, MID_VAL, MID_VAL) \<and>
   sample_in_range (MID_VAL, MID_VAL, MID_VAL, MID_VAL)"
  by (simp add: center_sticks_def stick_send_packet packed_values_Inr sample_in_range_def
      in_range_def MIN_VAL_def MAX_VAL_def MID_VAL_def)

lemma update_axis_stick:
  "\<exists>n. update_axis name v c = Inr (send_packet (c\<lparr>stick := store name (PyInt n) (stick c)\<rparr>))
     \<and> in_range n"
proof -
  obtain n where "py_int (clamp v (PyInt MIN_VAL) (PyInt MAX_VAL)) = Inr n" "1 \<le> n" "n \<le> 32768"
    using int_clamp_in_range by blast
  then show ?thesis
    by (auto simp: update_axis_def clamp_inline in_range_def MIN_VAL_def MAX_VAL_def)
qed

lemma store_in_range:
  assumes "packed_values s = Inr smp" and "sample_in_range smp" and "in_range n"
  shows "\<exists>smp'. packed_values (store name (PyInt n) s) = Inr smp' \<and> sample_in_range smp'"
proof -
  obtain r p y t where smp: "smp = (r, p, y, t)" by (cases smp) auto
  with assms show ?thesis
    by (cases name) (auto simp: packed_values_Inr sample_in_range_def)
qed

lemma sends_from_in_range:
  assumes "sends_from E s" and "float_env E"
  shows "\<exists>smp. packed_values s = Inr smp \<and> sample_in_range smp"
  using assms
proof (induction rule: sends_from.induct)
  case (centered c)
  show ?case using center_sticks_in_range by blast
next
  case (updated c name v c')
  obtain n where n: "update_axis name v c
      = Inr (send_packet (c\<lparr>stick := store name (PyInt n) (stick c)\<rparr>))" "in_range n"
    using update_axis_stick by blast
  with updated.hyps have "stick c' = store name (PyInt n) (stick c)"
    by (auto simp: stick_send_packet)
  moreover obtain smp where "packed_values (stick c) = Inr smp" "sample_in_range smp"
    using updated.IH updated.prems by blast
  ultimately show ?case using store_in_range n(2) by simp
next
  case (circled angle c)
  then show ?case using circles_body_in_range by blast
qed

lemma sample_int32:
  "sample_in_range (r, p, y, t) \<Longrightarrow>
   \<exists>packet. struct_pack_iiii (r, p, y, t) = Inr packet \<and> length packet = 16 \<and>
     struct_unpack_iiii packet = Inr (r, p, y, t)"
  using struct_roundtrip [of r p y t] in_range_int32 by (simp add: sample_in_range_def)

text \<open>
  Claim C3, as amended. \<open>send_packet\<close> does not clamp: it packs \<open>int(v)\<close> of each
  field of \<open>stick_state\<close> as it is. For every state in which the client calls it
  (written by \<open>center_sticks\<close>, by \<open>update_axis\<close>, which clamps before it stores, or
  by an iteration of \<open>circles_worker\<close>, whose values stay within \<open>[384, 32384]\<close>), the
  four integers packed lie in \<open>[MIN_VAL, MAX_VAL]\<close>, the packet is sent, and it decodes to
  those four integers.
\<close>

theorem client_sends_in_range:
  assumes "float_env E" and "sends_from E s"
  shows "\<exists>smp packet.
           packed_values s = Inr smp \<and> sample_in_range smp \<and>
           send_packet \<lparr>stick = s, sock_out = out\<rparr> = \<lparr>stick = s, sock_out = out @ [packet]\<rparr> \<and>
           struct_unpack_iiii packet = Inr smp"
proof -
  obtain smp where smp: "packed_values s = Inr smp" "sample_in_range smp"
    using sends_from_in_range [OF assms(2) assms(1)] by blast
  obtain r p y t where [simp]: "smp = (r, p, y, t)" by (cases smp) auto
  obtain packet where pk: "struct_pack_iiii smp = Inr packet"
      "struct_unpack_iiii packet = Inr smp"
    using sample_int32 [of r p y t] smp(2) by auto
  have "send_packet \<lparr>stick = s, sock_out = out\<rparr> = \<lparr>stick = s, sock_out = out @ [packet]\<rparr>"
    using smp(1) pk(1) by (simp add: send_packet_def)
  then show ?thesis using smp pk by blast
qed

theorem client_sends_in_range_witness:
  "float_env ideal_env \<and>
   sends_from ideal_env (stick (circles_body ideal_env 0 client_init)) \<and>
   stick (circles_body ideal_env 0 client_init) =
     \<lparr>roll = PyFloat 32384, pitch = PyFloat 16384, yaw = PyFloat 32384,
      throttle = PyFloat 16384\<rparr> \<and>
   (\<exists>smp packet.
      packed_values (stick (circles_body ideal_env 0 client_init)) = Inr smp \<and>
      sample_in_range smp \<and>
      send_packet \<lparr>stick = stick (circles_body ideal_env 0 client_init), sock_out = []\<rparr>
        = \<lparr>stick = stick (circles_body ideal_env 0 client_init), sock_out = [] @ [packet]\<rparr> \<and>
      struct_unpack_iiii packet = Inr smp)"
proof -
  have e: "float_env ideal_env" by (simp add: float_env_def ideal_env_def)
  have s: "sends_from ideal_env (stick (circles_body ideal_env 0 client_init))"
    by (rule sends_from.circled)
  have v: "stick (circles_body ideal_env 0 client_init) =
     \<lparr>roll = PyFloat 32384, pitch = PyFloat 16384, yaw = PyFloat 32384,
      throttle = PyFloat 16384\<rparr>"
    by (simp add: circles_body_def stick_send_packet mid_plus_def ideal_env_def client_init_def
        stick_state_init_def MID_VAL_def RADIUS_def)
  show ?thesis using e s v client_sends_in_range [OF e s, of "[]"] by blast
qed

text \<open>
  Claim C3 as stated fails: it speaks of every state of \<open>stick_state\<close>, and in the state
  the module starts with \<open>send_packet\<close> packs and sends a throttle of 0.
\<close>

theorem initial_state_sent_unclamped_counterexample:
  "send_packet client_init =
     \<lparr>stick = stick_state_init,
      sock_out = [[0, 64, 0, 0, 0, 64, 0, 0, 0, 64, 0, 0, 0, 0, 0, 0]]\<rparr> \<and>
   struct_unpack_iiii [0, 64, 0, 0, 0, 64, 0, 0, 0, 64, 0, 0, 0, 0, 0, 0]
     = Inr (16384, 16384, 16384, 0) \<and>
   \<not> sample_in_range (16384, 16384, 16384, 0)"
  by (simp add: send_packet_def client_init_def stick_state_init_def packed_values_def
      struct_pack_iiii_def pack_i_def struct_unpack_iiii_def MID_VAL_def
      sample_in_range_def in_range_def MIN_VAL_def MAX_VAL_def)


section \<open>The initial state of the client\<close>

lemma update_axis_other_key:
  assumes "name \<noteq> Throttle"
  shows "\<exists>c'. update_axis name v client_init = Inr c' \<and> throttle (stick c') = PyInt 0"
proof -
  obtain n where "update_axis name v client_init
      = Inr (send_packet (client_init\<lparr>stick := store name (PyInt n) (stick client_init)\<rparr>))"
    using update_axis_stick by blast
  moreover have "throttle (store name (PyInt n) (stick client_init)) = PyInt 0"
    using assms by (cases name) (simp_all add: client_init_def stick_state_init_def)
  ultimately show ?thesis by (simp add: stick_send_packet)
qed

text \<open>
  Claim C9, as amended. The initial \<open>stick_state\<close> is \<open>{roll = MID_VAL,
  pitch = MID_VAL, yaw = MID_VAL, throttle = 0}\<close>; its throttle is below \<open>MIN_VAL\<close>, so
  the four values \<open>send_packet\<close> would pack are not all in \<open>[MIN_VAL, MAX_VAL]\<close>. After
  \<open>center_sticks\<close> they are (all four are \<open>MID_VAL\<close>), and after
  \<open>update_axis('throttle', v)\<close> they are too, for every \<open>v\<close>. After \<open>update_axis\<close>
  on one of the other three keys the throttle is still 0.
\<close>

theorem initial_throttle_below_min:
  "stick_state_init =
     \<lparr>roll = PyInt MID_VAL, pitch = PyInt MID_VAL, yaw = PyInt MID_VAL, throttle = PyInt 0\<rparr> \<and>
   py_lt (throttle stick_state_init) (PyInt MIN_VAL) \<and>
   packed_values stick_state_init = Inr (MID_VAL, MID_VAL, MID_VAL, 0) \<and>
   \<not> sample_in_range (MID_VAL, MID_VAL, MID_VAL, 0) \<and>
   packed_values (stick (center_sticks client_init))
     = Inr (MID_VAL, MID_VAL, MID_VAL, MID_VAL) \<and>
   sample_in_range (MID_VAL, MID_VAL, MID_VAL, MID_VAL) \<and>
   (\<exists>n c'. update_axis Throttle v client_init = Inr c' \<and>
      packed_values (stick c') = Inr (MID_VAL, MID_VAL, MID_VAL, n) \<and>
      sample_in_range (MID_VAL, MID_VAL, MID_VAL, n)) \<and>
   (name \<noteq> Throttle \<longrightarrow>
      (\<exists>c'. update_axis name v client_init = Inr c' \<and> throttle (stick c') = PyInt 0 \<and>
         py_lt (throttle (stick c')) (PyInt MIN_VAL)))"
proof -
  obtain n where n: "update_axis Throttle v client_init
      = Inr (send_packet (client_init\<lparr>stick := store Throttle (PyInt n) (stick client_init)\<rparr>))"
      "in_range n"
    using update_axis_stick by blast
  have "packed_values (stick (send_packet
      (client_init\<lparr>stick := store Throttle (PyInt n) (stick client_init)\<rparr>)))
      = Inr (MID_VAL, MID_VAL, MID_VAL, n)"
    by (simp add: stick_send_packet packed_values_Inr client_init_def stick_state_init_def)
  moreover have "sample_in_range (MID_VAL, MID_VAL, MID_VAL, n)"
    using n(2) by (simp add: sample_in_range_def in_range_def MIN_VAL_def MAX_VAL_def MID_VAL_def)
  ultimately have u: "\<exists>n c'. update_axis Throttle v client_init = Inr c' \<and>
      packed_values (stick c') = Inr (MID_VAL, MID_VAL, MID_VAL, n) \<and>
      sample_in_range (MID_VAL, MID_VAL, MID_VAL, n)"
    using n(1) by blast
  have o: "name \<noteq> Throttle \<longrightarrow>
      (\<exists>c'. update_axis name v client_init = Inr c' \<and> throttle (stick c') = PyInt 0 \<and>
         py_lt (throttle (stick c')) (PyInt MIN_VAL))"
    using update_axis_other_key [of name v] by (auto simp: MIN_VAL_def)
  have "py_lt (throttle stick_state_init) (PyInt MIN_VAL)"
    by (simp add: stick_state_init_def MIN_VAL_def)
  moreover have "packed_values stick_state_init = Inr (MID_VAL, MID_VAL, MID_VAL, 0)"
    by (simp add: packed_values_Inr stick_state_init_def)
  moreover have "\<not> sample_in_range (MID_VAL, MID_VAL, MID_VAL, 0)"
    by (simp add: sample_in_range_def in_range_def MIN_VAL_def)
  ultimately show ?thesis
    using u o center_sticks_in_range [of client_init] by (simp add: stick_state_init_def)
qed

theorem initial_throttle_below_min_witness:
  "Roll \<noteq> Throttle \<and>
   (\<exists>c'. update_axis Roll (PyInt 5) client_init = Inr c' \<and> throttle (stick c') = PyInt 0 \<and>
      py_lt (throttle (stick c')) (PyInt MIN_VAL)) \<and>
   (\<exists>n c'. update_axis Throttle (PyInt 5) client_init = Inr c' \<and>
      packed_values (stick c') = Inr (MID_VAL, MID_VAL, MID_VAL, n) \<and>
      sample_in_range (MID_VAL, MID_VAL, MID_VAL, n))"
proof -
  have h: "Roll \<noteq> Throttle" by simp
  show ?thesis
    using h initial_throttle_below_min [of "PyInt 5" Roll] by blast
qed

text \<open>
  Claim C9 as stated fails: it names \<open>update_axis\<close> without the key. After
  \<open>update_axis('roll', 5)\<close> on the initial state the throttle is still 0, and the
  packet sent carries it.
\<close>

theorem update_axis_roll_keeps_throttle_counterexample:
  "update_axis Roll (PyInt 5) client_init =
     Inr \<lparr>stick = \<lparr>roll = PyInt 5, pitch = PyInt 16384, yaw = PyInt 16384,
                    throttle = PyInt 0\<rparr>,
          sock_out = [[5, 0, 0, 0, 0, 64, 0, 0, 0, 64, 0, 0, 0, 0, 0, 0]]\<rparr> \<and>
   packed_values \<lparr>roll = PyInt 5, pitch = PyInt 16384, yaw = PyInt 16384, throttle = PyInt 0\<rparr>
     = Inr (5, 16384, 16384, 0) \<and>
   \<not> sample_in_range (5, 16384, 16384, 0)"
  by code_simp

section \<open>The video producer\<close>

lemma video_loop_sends:
  "video_loop compress frames video_socket =
     video_socket @ filter (\<lambda>buffer. length buffer < 65000)
       (map compress (List.map_filter (\<lambda>frame. frame) frames))"
proof (induction frames arbitrary: video_socket)
  case Nil
  show ?case by (simp add: List.map_filter_simps)
next
  case (Cons frame frames)
  show ?case
    by (cases frame) (simp_all add: Cons.IH video_step_def List.map_filter_simps Let_def)
qed

text \<open>
  Claim C5. For a frame the camera gives, \<open>video_socket.sendto\<close> is called with the
  compressed buffer, once, when its length is below 65000, and is not called when the
  length is 65000 or more; over a run of the loop, the buffers handed to \<open>sendto\<close> are
  exactly the compressed frames shorter than 65000 bytes, in order.
\<close>

theorem video_frame_sent_iff_small:
  "(length (compress f) < 65000 \<longrightarrow>
      video_step compress (Some f) video_socket = video_socket @ [compress f]) \<and>
   (65000 \<le> length (compress f) \<longrightarrow>
      video_step compress (Some f) video_socket = video_socket) \<and>
   video_loop compress frames video_socket =
     video_socket @ filter (\<lambda>buffer. length buffer < 65000)
       (map compress (List.map_filter (\<lambda>frame. frame) frames))"
  using video_loop_sends [of compress frames video_socket]
  by (simp add: video_step_def Let_def)

theorem video_frame_sent_iff_small_witness:
  "length (replicate 64999 (0::byte)) < 65000 \<and>
   video_step (\<lambda>n. replicate n (0::byte)) (Some 64999) [] = [replicate 64999 0] \<and>
   65000 \<le> length (replicate 65000 (0::byte)) \<and>
   video_step (\<lambda>n. replicate n (0::byte)) (Some 65000) [] = [] \<and>
   video_loop (\<lambda>n. replicate n (0::byte)) [Some 64999, None, Some 65000, Some 3] []
     = [replicate 64999 0, replicate 3 0]"
proof -
  have a: "length (replicate 64999 (0::byte)) < 65000" by simp
  have b: "65000 \<le> length (replicate 65000 (0::byte))" by simp
  show ?thesis
    using a b
      video_frame_sent_iff_small [of "\<lambda>n. replicate n (0::byte)" 64999 "[]"
        "[Some 64999, None, Some 65000, Some 3]"]
      video_frame_sent_iff_small [of "\<lambda>n. replicate n (0::byte)" 65000 "[]" "[]"]
    by (simp add: List.map_filter_simps video_step_def)
qed

section \<open>Failure of the device at start\<close>

text \<open>
  Claim C7 at the failing input. When \<open>pyvjoy.VJoyDevice\<close> raises, \<open>test_server.py\<close>
  leaves through \<open>exit()\<close> before any loop starts, and the exit status is 0, where the
  claim says it is not zero; \<open>calibration.py\<close> leaves through \<open>sys.exit(1)\<close>, with
  status 1.
\<close>

theorem server_vjoy_failure_exits_zero:
  "server_vjoy_setup (Inl e) = Exited 0 \<and> calibration_vjoy_setup (Inl e) = Exited 1"
  by (simp add: server_vjoy_setup_def calibration_vjoy_setup_def exit_status_def)

section \<open>Loop conditions\<close>






end
